theory Spec2Isabelle
  imports Complex_Main
begin

section \<open>Python values and exceptions\<close>

text \<open>
  The script \<^verbatim>\<open>business_chatbot.py\<close> works on text, on values decoded from JSON and on
  lists of floats. A Python float is a finite double (a rational) or one of the three
  special values; no definition below computes with it.
\<close>

datatype pyfloat = Finite rat | PosInf | NegInf | NaN

datatype pyval =
    PNone
  | PBool bool
  | PInt int
  | PFloat pyfloat
  | PStr string
  | PList "pyval list"
  | PDict "(string \<times> pyval) list"

text \<open>
  An exception is its class and the text of \<^verbatim>\<open>str(e)\<close>. \<open>ValueError\<close> stands for
  that class and its subclasses (\<^verbatim>\<open>json.JSONDecodeError\<close> is one). For the exceptions that
  the built-in operations below raise, the text names the attribute, key or operation;
  CPython's wording differs between versions.
\<close>

datatype exn_class = ValueError | TypeError | KeyError | IndexError | AttributeError | OtherException

datatype exn = Exn (cls: exn_class) (msg: string)

text \<open>Sequencing of calls that may raise: the first exception ends the block.\<close>

definition bind_exn :: "exn + 'a \<Rightarrow> ('a \<Rightarrow> exn + 'b) \<Rightarrow> exn + 'b" where
  "bind_exn r f = (case r of Inl e \<Rightarrow> Inl e | Inr x \<Rightarrow> f x)"

subsection \<open>Built-in operations on text\<close>

text \<open>\<^verbatim>\<open>text.find(c)\<close>: the lowest index of \<open>c\<close>, or \<open>-1\<close>.\<close>

fun str_find :: "string \<Rightarrow> char \<Rightarrow> int" where
  "str_find [] c = -1"
| "str_find (x # xs) c =
     (if x = c then 0 else (let r = str_find xs c in if r = -1 then -1 else r + 1))"

text \<open>\<^verbatim>\<open>text.rfind(c)\<close>: the highest index of \<open>c\<close>, or \<open>-1\<close>.\<close>

definition str_rfind :: "string \<Rightarrow> char \<Rightarrow> int" where
  "str_rfind s c =
     (let r = str_find (rev s) c in if r = -1 then -1 else int (length s) - 1 - r)"

text \<open>
  \<^verbatim>\<open>text[i:j]\<close>: a negative bound counts from the end, and both bounds are clamped to
  the text.
\<close>

definition slice_bound :: "nat \<Rightarrow> int \<Rightarrow> nat" where
  "slice_bound n i = (if i < 0 then nat (max 0 (int n + i)) else min (nat i) n)"

definition str_slice :: "string \<Rightarrow> int \<Rightarrow> int \<Rightarrow> string" where
  "str_slice s i j =
     (let lo = slice_bound (length s) i; hi = slice_bound (length s) j
      in take (hi - lo) (drop lo s))"

text \<open>\<^verbatim>\<open>text.split(c)\<close>: the pieces between the separators, at least one piece.\<close>

fun str_split :: "string \<Rightarrow> char \<Rightarrow> string list" where
  "str_split [] c = [[]]"
| "str_split (x # xs) c =
     (if x = c then [] # str_split xs c
      else (case str_split xs c of [] \<Rightarrow> [[x]] | w # ws \<Rightarrow> (x # w) # ws))"

text \<open>
  \<^verbatim>\<open>text.strip()\<close>. A \<open>char\<close> is read as a code point below 256; the whitespace of
  \<^verbatim>\<open>str.isspace\<close> in that range is 9 to 13, 28 to 32, 133 and 160.
\<close>

definition isspace :: "char \<Rightarrow> bool" where
  "isspace c =
     (let n = of_char c :: nat
      in (9 \<le> n \<and> n \<le> 13) \<or> (28 \<le> n \<and> n \<le> 32) \<or> n = 133 \<or> n = 160)"

definition str_strip :: "string \<Rightarrow> string" where
  "str_strip s = rev (dropWhile isspace (rev (dropWhile isspace s)))"

text \<open>\<^verbatim>\<open>k in s\<close> on two texts: \<open>k\<close> occurs in \<open>s\<close> as a contiguous piece.\<close>

fun str_contains :: "string \<Rightarrow> string \<Rightarrow> bool" where
  "str_contains [] k = (k = [])"
| "str_contains (x # xs) k = (take (length k) (x # xs) = k \<or> str_contains xs k)"

subsection \<open>Built-in operations on decoded values\<close>

text \<open>\<^verbatim>\<open>d.get(k, default)\<close>; only a dict has the method.\<close>

fun py_get :: "pyval \<Rightarrow> string \<Rightarrow> pyval \<Rightarrow> exn + pyval" where
  "py_get (PDict d) k dflt = Inr (case map_of d k of None \<Rightarrow> dflt | Some v \<Rightarrow> v)"
| "py_get _ k dflt = Inl (Exn AttributeError ''get'')"

text \<open>
  \<^verbatim>\<open>k in v\<close> for a text \<open>k\<close>: a key of a dict, an element of a list, a piece of a text;
  any other value is not iterable.
\<close>

fun py_in :: "string \<Rightarrow> pyval \<Rightarrow> exn + bool" where
  "py_in k (PDict d) = Inr (k \<in> set (map fst d))"
| "py_in k (PList xs) = Inr (PStr k \<in> set xs)"
| "py_in k (PStr s) = Inr (str_contains s k)"
| "py_in k _ = Inl (Exn TypeError ''in'')"

text \<open>\<^verbatim>\<open>v[k]\<close> for a text \<open>k\<close>: defined on a dict that has the key.\<close>

fun py_getitem :: "pyval \<Rightarrow> string \<Rightarrow> exn + pyval" where
  "py_getitem (PDict d) k = (case map_of d k of None \<Rightarrow> Inl (Exn KeyError k) | Some v \<Rightarrow> Inr v)"
| "py_getitem _ k = Inl (Exn TypeError ''getitem'')"

text \<open>
  \<^verbatim>\<open>v[0]\<close>: the first element of a list, the first character of a text. The keys of a
  decoded dict are texts, so \<open>0\<close> is never one.
\<close>

fun py_getitem0 :: "pyval \<Rightarrow> exn + pyval" where
  "py_getitem0 (PList xs) = (case xs of [] \<Rightarrow> Inl (Exn IndexError ''0'') | x # _ \<Rightarrow> Inr x)"
| "py_getitem0 (PStr s) = (case s of [] \<Rightarrow> Inl (Exn IndexError ''0'') | c # _ \<Rightarrow> Inr (PStr [c]))"
| "py_getitem0 (PDict d) = Inl (Exn KeyError ''0'')"
| "py_getitem0 _ = Inl (Exn TypeError ''getitem'')"

section \<open>Messages, charts and the page\<close>

datatype role = System | User | Assistant

record message =
  role :: role
  content :: pyval

datatype theme = DayMode | NightMode

datatype chart = Pie | Line | Bar

text \<open>The two columns handed to \<^verbatim>\<open>pd.DataFrame\<close>.\<close>

record frame =
  Category :: pyval
  Amount :: pyval

text \<open>The arguments of \<^verbatim>\<open>fig.update_layout\<close> (lines 129 to 134).\<close>

record layout =
  template :: string
  title_font_size :: nat
  xaxis_title :: string
  yaxis_title :: string

text \<open>
  A figure is the description of the calls that build it: the \<^verbatim>\<open>px\<close> function, its
  frame and title, whether markers are asked for, the layout update if there is one,
  and the \<^verbatim>\<open>use_container_width\<close> argument of \<^verbatim>\<open>st.plotly_chart\<close> if one is given.
\<close>

record figure =
  px :: chart
  data_frame :: frame
  fig_title :: pyval
  markers :: bool
  update_layout :: "layout option"
  use_container_width :: "bool option"

text \<open>
  What the script puts on the page, one event per call, in order. The exception of an
  error event is the one whose \<^verbatim>\<open>str(e)\<close> the message interpolates.
\<close>

datatype ui =
    Info                           \<comment> \<open>line 85\<close>
  | ChatMessage role               \<comment> \<open>\<^verbatim>\<open>with st.chat_message(role)\<close>\<close>
  | Markdown pyval                 \<comment> \<open>\<^verbatim>\<open>st.markdown(content)\<close>\<close>
  | Subheader pyval                \<comment> \<open>line 119, the title after the chart sign\<close>
  | PlotlyChart figure             \<comment> \<open>lines 136 and 238\<close>
  | VisualizationError exn         \<comment> \<open>line 139\<close>
  | GatewayStatusError int pyval   \<comment> \<open>line 182: status code and error descriptor\<close>
  | GatewayError exn               \<comment> \<open>line 184\<close>
  | CountMismatchError             \<comment> \<open>line 240\<close>
  | AmountError exn                \<comment> \<open>line 242\<close>

record response =
  status_code :: int
  json :: "exn + pyval"

text \<open>
  The libraries the script calls are parameters. \<open>json_loads\<close> is \<^verbatim>\<open>json.loads\<close>;
  \<open>DataFrame\<close> says whether \<^verbatim>\<open>pd.DataFrame\<close> raises on the two columns; \<open>plotly\<close> says
  whether building and showing the figure raises (\<^verbatim>\<open>px.pie\<close>, \<^verbatim>\<open>px.line\<close> or \<^verbatim>\<open>px.bar\<close>,
  \<^verbatim>\<open>update_layout\<close>, \<^verbatim>\<open>st.plotly_chart\<close>); \<open>float\<close> is the built-in conversion of a text;
  \<open>requests_post\<close> is the call to the completion endpoint with the stored key and the
  message log (model, temperature 0.7 and max_tokens 1024 are constants of the request).
  The other \<^verbatim>\<open>st\<close> calls only display and are taken not to raise.
\<close>

record libs =
  json_loads :: "string \<Rightarrow> exn + pyval"
  DataFrame :: "frame \<Rightarrow> exn option"
  plotly :: "figure \<Rightarrow> exn option"
  float :: "string \<Rightarrow> exn + pyfloat"
  requests_post :: "string \<Rightarrow> message list \<Rightarrow> exn + response"

text \<open>
  The state of one run of the script after its initialisation: the stored key, the
  message log \<^verbatim>\<open>st.session_state.messages\<close>, the page so far, and the requests sent
  (each with the log it carried).
\<close>

record app =
  groq_client_api_key :: string
  messages :: "message list"
  screen :: "ui list"
  sent :: "message list list"

definition st :: "ui \<Rightarrow> app \<Rightarrow> app" where
  "st ev a = a\<lparr>screen := screen a @ [ev]\<rparr>"

definition append_message :: "message \<Rightarrow> app \<Rightarrow> app" where
  "append_message m a = a\<lparr>messages := messages a @ [m]\<rparr>"

section \<open>create_visualization (lines 100 to 140)\<close>

text \<open>Lines 103 to 106: the text from the first opening brace to the last closing one.\<close>

definition json_span :: "string \<Rightarrow> string option" where
  "json_span text =
     (let start = str_find text CHR ''{'';
          end' = str_rfind text CHR ''}'' + 1
      in if start \<noteq> -1 \<and> end' > start then Some (str_slice text start end') else None)"

text \<open>
  Lines 107 to 117: decode, read the three keys with their defaults, test for both
  columns, build the frame. \<open>Inr None\<close> is the fall through to \<^verbatim>\<open>return False\<close>.
\<close>

definition chart_frame :: "libs \<Rightarrow> string \<Rightarrow> exn + (pyval \<times> pyval \<times> frame) option" where
  "chart_frame env json_str =
     bind_exn (json_loads env json_str) (\<lambda>data.
     bind_exn (py_get data ''chart_type'' (PStr ''bar'')) (\<lambda>chart_type.
     bind_exn (py_get data ''title'' (PStr ''Financial Analysis'')) (\<lambda>title.
     bind_exn (py_get data ''data'' (PDict [])) (\<lambda>chart_data.
     bind_exn (py_in ''labels'' chart_data) (\<lambda>has_labels.
     bind_exn (if has_labels then py_in ''values'' chart_data else Inr False) (\<lambda>both.
       if both then
         bind_exn (py_getitem chart_data ''labels'') (\<lambda>labels.
         bind_exn (py_getitem chart_data ''values'') (\<lambda>vals.
           let frame = \<lparr>Category = labels, Amount = vals\<rparr>
           in case DataFrame env frame of
                Some e \<Rightarrow> Inl e
              | None \<Rightarrow> Inr (Some (chart_type, title, frame))))
       else Inr None))))))"

text \<open>Lines 121 to 134: the figure for a chart type, a title, a frame and a theme.\<close>

definition chart_of :: "pyval \<Rightarrow> chart" where
  "chart_of chart_type =
     (if chart_type = PStr ''pie'' then Pie
      else if chart_type = PStr ''line'' then Line
      else Bar)"

definition make_figure :: "theme \<Rightarrow> pyval \<Rightarrow> pyval \<Rightarrow> frame \<Rightarrow> figure" where
  "make_figure theme chart_type title frame =
     \<lparr>px = chart_of chart_type,
      data_frame = frame,
      fig_title = title,
      markers = (chart_of chart_type = Line),
      update_layout = Some
        \<lparr>template = (if theme = NightMode then ''plotly_dark'' else ''plotly_white''),
         title_font_size = 24,
         xaxis_title = ''Category'',
         yaxis_title = ''Amount''\<rparr>,
      use_container_width = Some True\<rparr>"

text \<open>
  Lines 107 to 140 for a span: every exception of the block is caught, shown with
  \<^verbatim>\<open>st.error\<close>, and the function returns False. The subheader is shown before the
  figure is built, so it stays on the page when the figure fails.
\<close>

definition visualize_span :: "libs \<Rightarrow> theme \<Rightarrow> string \<Rightarrow> app \<Rightarrow> bool \<times> app" where
  "visualize_span env theme json_str a =
     (case chart_frame env json_str of
        Inl e \<Rightarrow> (False, st (VisualizationError e) a)
      | Inr None \<Rightarrow> (False, a)
      | Inr (Some (chart_type, title, frame)) \<Rightarrow>
          (let a1 = st (Subheader title) a;
               fig = make_figure theme chart_type title frame
           in case plotly env fig of
                Some e \<Rightarrow> (False, st (VisualizationError e) a1)
              | None \<Rightarrow> (True, st (PlotlyChart fig) a1)))"

text \<open>
  The whole function. A value that is not a text has no \<^verbatim>\<open>find\<close>: the attribute
  error is raised inside the \<^verbatim>\<open>try\<close> and caught like the others.
\<close>

definition create_visualization :: "libs \<Rightarrow> theme \<Rightarrow> pyval \<Rightarrow> app \<Rightarrow> bool \<times> app" where
  "create_visualization env theme text a =
     (case text of
        PStr s \<Rightarrow>
          (case json_span s of
             None \<Rightarrow> (False, a)
           | Some json_str \<Rightarrow> visualize_span env theme json_str a)
      | _ \<Rightarrow> (False, st (VisualizationError (Exn AttributeError ''find'')) a))"

section \<open>The script\<close>

text \<open>Lines 89 to 97: the system message that seeds the log.\<close>

definition system_prompt :: string where
  \<open>system_prompt =
     ''You are a helpful financial assistant. Provide advice on budgeting, saving, investing, and personal finance. \<newline>'' @
     ''        When users provide financial data (like expenses, income, budgets, investments), respond with both advice AND a JSON object \<newline>'' @
     ''        for visualization. Format: {"chart_type": "pie|bar|line", "title": "Chart Title", "data": {"labels": [], "values": []}}\<newline>'' @
     ''        Always remind users to consult with licensed financial advisors for important decisions.''\<close>

definition system_message :: message where
  "system_message = \<lparr>role = System, content = PStr system_prompt\<rparr>"

text \<open>Line 144, \<^verbatim>\<open>messages[1:]\<close>: the log without its first element.\<close>

definition history :: "message list \<Rightarrow> message list" where
  "history ms = drop 1 ms"

text \<open>
  Lines 144 to 148: every message but the first is shown, and an assistant message is
  given to \<open>create_visualization\<close> again.
\<close>

fun display_history :: "libs \<Rightarrow> theme \<Rightarrow> message list \<Rightarrow> app \<Rightarrow> app" where
  "display_history env theme [] a = a"
| "display_history env theme (m # ms) a =
     (let a1 = st (Markdown (content m)) (st (ChatMessage (role m)) a);
          a2 = (if role m = Assistant
                then snd (create_visualization env theme (content m) a1)
                else a1)
      in display_history env theme ms a2)"

text \<open>Line 174: \<^verbatim>\<open>response_data['choices'][0]['message']['content']\<close>.\<close>

definition assistant_content :: "pyval \<Rightarrow> exn + pyval" where
  "assistant_content response_data =
     bind_exn (py_getitem response_data ''choices'') (\<lambda>choices.
     bind_exn (py_getitem0 choices) (\<lambda>choice.
     bind_exn (py_getitem choice ''message'') (\<lambda>reply.
       py_getitem reply ''content'')))"

text \<open>
  Lines 151 to 184. \<open>prompt\<close> is what \<^verbatim>\<open>st.chat_input\<close> returns: \<open>None\<close> when nothing was
  submitted; the test of line 151 is the truth value of the text, false for the empty
  text only. Every exception of the \<^verbatim>\<open>try\<close> block is caught and shown.
\<close>

definition chat_input :: "libs \<Rightarrow> theme \<Rightarrow> string option \<Rightarrow> app \<Rightarrow> app" where
  "chat_input env theme prompt a =
     (case prompt of
        None \<Rightarrow> a
      | Some p \<Rightarrow>
          if p = [] then a
          else
            (let a1 = append_message \<lparr>role = User, content = PStr p\<rparr> a;
                 a2 = st (Markdown (PStr p)) (st (ChatMessage User) a1);
                 a3 = st (ChatMessage Assistant) a2;
                 a4 = a3\<lparr>sent := sent a3 @ [messages a3]\<rparr>
             in case requests_post env (groq_client_api_key a4) (messages a4) of
                  Inl e \<Rightarrow> st (GatewayError e) a4
                | Inr response \<Rightarrow>
                    (case json response of
                       Inl e \<Rightarrow> st (GatewayError e) a4
                     | Inr response_data \<Rightarrow>
                         if status_code response = 200 then
                           (case assistant_content response_data of
                              Inl e \<Rightarrow> st (GatewayError e) a4
                            | Inr assistant_message \<Rightarrow>
                                (let a5 = st (Markdown assistant_message) a4;
                                     a6 = snd (create_visualization env theme assistant_message a5)
                                 in append_message
                                      \<lparr>role = Assistant, content = assistant_message\<rparr> a6))
                         else
                           (case py_get response_data ''error'' (PStr ''Unknown error'') of
                              Inl e \<Rightarrow> st (GatewayError e) a4
                            | Inr err \<Rightarrow>
                                st (GatewayStatusError (status_code response) err) a4))))"

text \<open>
  Line 190, the Clear Chat History button: the log becomes its first element alone.
  On an empty log \<^verbatim>\<open>messages[0]\<close> raises.
\<close>

definition clear_chat_history :: "app \<Rightarrow> exn + app" where
  "clear_chat_history a =
     (case messages a of
        [] \<Rightarrow> Inl (Exn IndexError ''0'')
      | m # _ \<Rightarrow> Inr (a\<lparr>messages := [m]\<rparr>))"

subsection \<open>Canvas mode (lines 212 to 242)\<close>

text \<open>\<^verbatim>\<open>list(map(float, amounts))\<close>: the first text that does not convert raises.\<close>

fun map_float :: "libs \<Rightarrow> string list \<Rightarrow> exn + pyfloat list" where
  "map_float env [] = Inr []"
| "map_float env (x # xs) =
     bind_exn (float env x) (\<lambda>v.
     bind_exn (map_float env xs) (\<lambda>vs. Inr (v # vs)))"

text \<open>Lines 231 to 237: the frame and the bar chart of the canvas.\<close>

definition canvas_figure :: "string list \<Rightarrow> pyfloat list \<Rightarrow> figure" where
  "canvas_figure cats floats =
     \<lparr>px = Bar,
      data_frame = \<lparr>Category = PList (map PStr cats), Amount = PList (map PFloat floats)\<rparr>,
      fig_title = PStr ''Custom Financial Chart'', markers = False,
      update_layout = None, use_container_width = None\<rparr>"

text \<open>
  Lines 223 to 238, the body of the \<^verbatim>\<open>try\<close>: \<open>Inr None\<close> is the branch of line 240,
  \<open>Inr (Some fig)\<close> a figure that was shown.
\<close>

definition canvas_chart :: "libs \<Rightarrow> string \<Rightarrow> string \<Rightarrow> exn + figure option" where
  "canvas_chart env categories amounts =
     (let cats = map str_strip (str_split categories CHR '','');
          amts = map str_strip (str_split amounts CHR '','')
      in bind_exn (map_float env amts) (\<lambda>floats.
           if length cats = length floats then
             (let fig = canvas_figure cats floats
              in case DataFrame env (data_frame fig) of
                   Some e \<Rightarrow> Inl e
                 | None \<Rightarrow> (case plotly env fig of Some e \<Rightarrow> Inl e | None \<Rightarrow> Inr (Some fig)))
           else Inr None))"

text \<open>
  Lines 220 to 242. Only a \<open>ValueError\<close> is caught; any other exception leaves the
  script, which is the first component of the result.
\<close>

definition canvas :: "libs \<Rightarrow> string \<Rightarrow> string \<Rightarrow> app \<Rightarrow> exn option \<times> app" where
  "canvas env categories amounts a =
     (if categories \<noteq> [] \<and> amounts \<noteq> [] then
        (case canvas_chart env categories amounts of
           Inr (Some fig) \<Rightarrow> (None, st (PlotlyChart fig) a)
         | Inr None \<Rightarrow> (None, st CountMismatchError a)
         | Inl e \<Rightarrow> if cls e = ValueError then (None, st (AmountError e) a) else (Some e, a))
      else (None, a))"

subsection \<open>One run of the script\<close>

text \<open>
  \<^verbatim>\<open>st.session_state\<close> between two runs: a key is absent until the script stores it.
\<close>

record session_state =
  state_groq_client_api_key :: "string option"
  state_messages :: "message list option"

text \<open>The widgets read by one run.\<close>

record inputs =
  theme_choice :: theme                \<comment> \<open>line 42\<close>
  api_key :: string                    \<comment> \<open>line 81\<close>
  prompt :: "string option"            \<comment> \<open>line 151\<close>
  clear_clicked :: bool                \<comment> \<open>line 189\<close>
  canvas_mode :: bool                  \<comment> \<open>line 210\<close>
  categories :: string                 \<comment> \<open>line 217\<close>
  amounts :: string                    \<comment> \<open>line 218\<close>

datatype outcome = Completed | Stopped | Rerun | Uncaught exn

record run =
  outcome :: outcome
  state :: session_state
  page :: "ui list"
  requests :: "message list list"

definition finish :: "outcome \<Rightarrow> app \<Rightarrow> run" where
  "finish out a =
     \<lparr>outcome = out,
      state = \<lparr>state_groq_client_api_key = Some (groq_client_api_key a),
               state_messages = Some (messages a)\<rparr>,
      page = screen a,
      requests = sent a\<rparr>"

text \<open>
  The script from line 80 on. \<^verbatim>\<open>groq_client\<close> is never stored, so the key is read on
  every run and an empty one stops the run at line 86, before the log is created.
  The static markup of the page is left out of \<open>page\<close>.
\<close>

definition run_script :: "libs \<Rightarrow> inputs \<Rightarrow> session_state \<Rightarrow> run" where
  "run_script env inp ss =
     (if api_key inp = [] then
        \<lparr>outcome = Stopped, state = ss, page = [Info], requests = []\<rparr>
      else
        (let a0 = \<lparr>groq_client_api_key = api_key inp,
                   messages = (case state_messages ss of
                                 None \<Rightarrow> [system_message]
                               | Some ms \<Rightarrow> ms),
                   screen = [], sent = []\<rparr>;
             a1 = display_history env (theme_choice inp) (history (messages a0)) a0;
             a2 = chat_input env (theme_choice inp) (prompt inp) a1
         in if clear_clicked inp then
              (case clear_chat_history a2 of
                 Inl e \<Rightarrow> finish (Uncaught e) a2
               | Inr a3 \<Rightarrow> finish Rerun a3)
            else if canvas_mode inp then
              (case canvas env (categories inp) (amounts inp) a2 of
                 (None, a3) \<Rightarrow> finish Completed a3
               | (Some e, a3) \<Rightarrow> finish (Uncaught e) a3)
            else finish Completed a2))"

section \<open>Reading a decoded payload and a response\<close>

text \<open>
  The keys the specification names, read from a decoded value: a top-level key, and a
  column \<open>data.labels\<close> or \<open>data.values\<close>, which is there when \<open>data\<close> is an object
  with that key.
\<close>

definition top_field :: "pyval \<Rightarrow> string \<Rightarrow> pyval option" where
  "top_field payload k = (case payload of PDict d \<Rightarrow> map_of d k | _ \<Rightarrow> None)"

definition column :: "pyval \<Rightarrow> string \<Rightarrow> pyval option" where
  "column payload k =
     (case top_field payload ''data'' of Some (PDict c) \<Rightarrow> map_of c k | _ \<Rightarrow> None)"

text \<open>
  The chart that a payload describes: both columns present, the chart type \<open>bar\<close> and the
  title \<open>Financial Analysis\<close> when their keys are absent.
\<close>

definition chart_spec :: "theme \<Rightarrow> pyval \<Rightarrow> figure option" where
  "chart_spec theme payload =
     (case (column payload ''labels'', column payload ''values'') of
        (Some labels, Some vals) \<Rightarrow>
          Some (make_figure theme
                  (case top_field payload ''chart_type'' of None \<Rightarrow> PStr ''bar'' | Some c \<Rightarrow> c)
                  (case top_field payload ''title'' of
                     None \<Rightarrow> PStr ''Financial Analysis'' | Some t \<Rightarrow> t)
                  \<lparr>Category = labels, Amount = vals\<rparr>)
      | _ \<Rightarrow> None)"

text \<open>A numeric entry of a column is an integer or a float.\<close>

definition numeric :: "pyval \<Rightarrow> bool" where
  "numeric v = (case v of PInt _ \<Rightarrow> True | PFloat _ \<Rightarrow> True | _ \<Rightarrow> False)"

text \<open>\<open>choices[0].message.content\<close> of a response body, when the body has it.\<close>

definition reply_content :: "pyval \<Rightarrow> pyval option" where
  "reply_content body =
     (case top_field body ''choices'' of
        Some (PList (choice # _)) \<Rightarrow>
          (case top_field choice ''message'' of
             Some reply \<Rightarrow> top_field reply ''content''
           | None \<Rightarrow> None)
      | _ \<Rightarrow> None)"

text \<open>
  The reply that lines 170 to 174 accept: the call returns, the body decodes, the status
  is 200 and the content is found.
\<close>

definition gateway_reply :: "exn + response \<Rightarrow> pyval option" where
  "gateway_reply res =
     (case res of
        Inl e \<Rightarrow> None
      | Inr r \<Rightarrow>
          (case json r of
             Inl e \<Rightarrow> None
           | Inr d \<Rightarrow>
               if status_code r = 200
               then (case assistant_content d of Inl e \<Rightarrow> None | Inr c \<Rightarrow> Some c)
               else None))"

text \<open>The events that \<^verbatim>\<open>st.error\<close> produces.\<close>

fun is_error :: "ui \<Rightarrow> bool" where
  "is_error (VisualizationError e) = True"
| "is_error (GatewayStatusError c d) = True"
| "is_error (GatewayError e) = True"
| "is_error CountMismatchError = True"
| "is_error (AmountError e) = True"
| "is_error _ = False"

text \<open>
  The invariant of the log: its first element is the system message, and no other
  element has the system role.
\<close>

definition wf_log :: "message list \<Rightarrow> bool" where
  "wf_log ms =
     (case ms of
        [] \<Rightarrow> False
      | m # rest \<Rightarrow> m = system_message \<and> list_all (\<lambda>m. role m \<noteq> System) rest)"

section \<open>Example inputs\<close>

text \<open>
  The answers of the libraries on the texts used in the examples below:
  \<^verbatim>\<open>json.loads\<close> on six spans, \<^verbatim>\<open>float\<close> on four texts, \<^verbatim>\<open>pd.DataFrame\<close> on two lists
  (it raises when their lengths differ), a completion endpoint that answers 401 to the
  key \<open>expired\<close> and 200 with a reply otherwise. Outside these inputs the tables are not
  used.
\<close>

definition example_json :: "(string \<times> (exn + pyval)) list" where
  \<open>example_json =
     [(''{"title":"T"}'', Inr (PDict [(''title'', PStr ''T'')])),
      (''{"data":{"labels":["A","B"],"values":[1]}}'',
         Inr (PDict [(''data'', PDict [(''labels'', PList [PStr ''A'', PStr ''B'']),
                                       (''values'', PList [PInt 1])])])),
      (''{"data":{"labels":["A"],"values":["abc"]}}'',
         Inr (PDict [(''data'', PDict [(''labels'', PList [PStr ''A'']),
                                       (''values'', PList [PStr ''abc''])])])),
      (''{"data":{"labels":[],"values":[]}}'',
         Inr (PDict [(''data'', PDict [(''labels'', PList []), (''values'', PList [])])])),
      (''{"chart_type":"pie","title":"T","data":{"labels":["A","B"],"values":[1,2]}}'',
         Inr (PDict [(''chart_type'', PStr ''pie''), (''title'', PStr ''T''),
                     (''data'', PDict [(''labels'', PList [PStr ''A'', PStr ''B'']),
                                       (''values'', PList [PInt 1, PInt 2])])])),
      (''{x}'',
         Inl (Exn ValueError
           ''Expecting property name enclosed in double quotes: line 1 column 2 (char 1)''))]\<close>

definition example_floats :: "(string \<times> (exn + pyfloat)) list" where
  \<open>example_floats =
     [(''500'', Inr (Finite 500)),
      (''300'', Inr (Finite 300)),
      (''150'', Inr (Finite 150)),
      (''abc'', Inl (Exn ValueError (''could not convert string to float: 'abc'' @ [CHR 0x27])))]\<close>

definition example_response :: "string \<Rightarrow> response" where
  "example_response key =
     (if key = ''expired'' then
        \<lparr>status_code = 401,
         json = Inr (PDict [(''error'', PDict [(''message'', PStr ''Invalid API Key'')])])\<rparr>
      else
        \<lparr>status_code = 200,
         json = Inr (PDict [(''choices'',
                  PList [PDict [(''message'',
                    PDict [(''role'', PStr ''assistant''),
                           (''content'', PStr ''Spend less than you earn.'')])]])])\<rparr>)"

definition example_libs :: libs where
  "example_libs =
     \<lparr>json_loads = (\<lambda>s. case map_of example_json s of
                           Some r \<Rightarrow> r
                         | None \<Rightarrow> Inl (Exn ValueError [])),
      DataFrame = (\<lambda>f. case (Category f, Amount f) of
                          (PList xs, PList ys) \<Rightarrow>
                            if length xs = length ys then None
                            else Some (Exn ValueError ''All arrays must be of the same length'')
                        | _ \<Rightarrow> Some (Exn ValueError [])),
      plotly = (\<lambda>fig. None),
      float = (\<lambda>s. case map_of example_floats s of
                      Some r \<Rightarrow> r
                    | None \<Rightarrow> Inl (Exn ValueError [])),
      requests_post = (\<lambda>key log. Inr (example_response key))\<rparr>"

text \<open>
  An endpoint that answers 200 with a body whose content is \<^verbatim>\<open>null\<close>, as a reply that carries
  no text does.
\<close>

definition null_content_response :: response where
  "null_content_response =
     \<lparr>status_code = 200,
      json = Inr (PDict [(''choices'',
               PList [PDict [(''message'',
                 PDict [(''role'', PStr ''assistant''), (''content'', PNone)])]])])\<rparr>"

definition null_content_libs :: libs where
  "null_content_libs = example_libs\<lparr>requests_post := (\<lambda>key log. Inr null_content_response)\<rparr>"

definition example_app :: app where
  "example_app =
     \<lparr>groq_client_api_key = ''expired'', messages = [system_message], screen = [], sent = []\<rparr>"

definition fresh_session :: session_state where
  "fresh_session = \<lparr>state_groq_client_api_key = None, state_messages = None\<rparr>"

definition example_inputs :: inputs where
  "example_inputs =
     \<lparr>theme_choice = DayMode, api_key = ''gsk-key'', prompt = Some ''How much should I save?'',
      clear_clicked = False, canvas_mode = False, categories = [], amounts = []\<rparr>"

section \<open>The span between the braces\<close>

lemma str_find_absent: "c \<notin> set s \<Longrightarrow> str_find s c = -1"
  by (induction s) auto

lemma str_find_present:
  "c \<in> set s \<Longrightarrow> str_find s c = int (length (takeWhile (\<lambda>x. x \<noteq> c) s))"
  by (induction s) (auto simp: Let_def str_find_absent)

lemma str_find_split: "c \<notin> set A \<Longrightarrow> str_find (A @ c # B) c = int (length A)"
  by (induction A) (auto simp: Let_def)

lemma str_rfind_absent: "c \<notin> set s \<Longrightarrow> str_rfind s c = -1"
  by (simp add: str_rfind_def str_find_absent)

lemma str_rfind_split: "c \<notin> set B \<Longrightarrow> str_rfind (A @ c # B) c = int (length A)"
  using str_find_split [of c "rev B" "rev A"] by (simp add: str_rfind_def Let_def)

lemma str_slice_mid:
  "str_slice (A @ M @ B) (int (length A)) (int (length A + length M)) = M"
  by (simp add: str_slice_def slice_bound_def Let_def)

lemma dropWhile_upto:
  "c \<notin> set B \<Longrightarrow> dropWhile (\<lambda>x. x \<noteq> c) (B @ c # A) = c # A"
  by (induction B) auto

lemma json_span_eq:
  "json_span text =
     (if CHR ''{'' \<in> set text \<and> CHR ''}'' \<in> set (dropWhile (\<lambda>c. c \<noteq> CHR ''{'') text)
      then Some (rev (dropWhile (\<lambda>c. c \<noteq> CHR ''}'')
                   (rev (dropWhile (\<lambda>c. c \<noteq> CHR ''{'') text))))
      else None)"
proof (cases "CHR ''{'' \<in> set text")
  case False
  then show ?thesis by (simp add: json_span_def str_find_absent)
next
  case True
  define pre where "pre = takeWhile (\<lambda>c. c \<noteq> CHR ''{'') text"
  define rest where "rest = dropWhile (\<lambda>c. c \<noteq> CHR ''{'') text"
  have decomp: "text = pre @ rest" by (simp add: pre_def rest_def)
  have start: "str_find text CHR ''{'' = int (length pre)"
    using True by (simp add: str_find_present pre_def)
  show ?thesis
  proof (cases "CHR ''}'' \<in> set rest")
    case in_rest: True
    then obtain R1 R2 where rest: "rest = R1 @ CHR ''}'' # R2" and R2: "CHR ''}'' \<notin> set R2"
      by (meson split_list_last)
    have "text = (pre @ R1) @ CHR ''}'' # R2" using decomp rest by simp
    then have rf: "str_rfind text CHR ''}'' = int (length (pre @ R1))"
      using str_rfind_split [OF R2, of "pre @ R1"] by simp
    have sl: "str_slice text (int (length pre)) (int (length pre + length (R1 @ [CHR ''}'']))) =
                R1 @ [CHR ''}'']"
      using str_slice_mid [of pre "R1 @ [CHR ''}'']" R2] decomp rest by simp
    have dw: "rev (dropWhile (\<lambda>c. c \<noteq> CHR ''}'') (rev rest)) = R1 @ [CHR ''}'']"
      using dropWhile_upto [of "CHR ''}''" "rev R2" "rev R1"] R2 by (simp add: rest)
    show ?thesis
      using True in_rest start rf sl dw
      by (simp add: json_span_def Let_def rest_def [symmetric] add.commute add.left_commute)
  next
    case not_rest: False
    have "\<not> str_rfind text CHR ''}'' + 1 > int (length pre)"
    proof (cases "CHR ''}'' \<in> set text")
      case False
      then show ?thesis by (simp add: str_rfind_absent)
    next
      case True
      then obtain A B where AB: "text = A @ CHR ''}'' # B" and B: "CHR ''}'' \<notin> set B"
        by (meson split_list_last)
      have rf: "str_rfind text CHR ''}'' = int (length A)"
        using str_rfind_split [OF B, of A] AB by simp
      have "length A < length pre"
      proof (rule ccontr)
        assume "\<not> length A < length pre"
        then have "length pre \<le> length A" by simp
        then have "drop (length pre) text = drop (length pre) A @ CHR ''}'' # B"
          using AB by simp
        moreover have "drop (length pre) text = rest" using decomp by simp
        ultimately show False using not_rest by simp
      qed
      then show ?thesis using rf by simp
    qed
    then show ?thesis
      using True not_rest start
      by (simp add: json_span_def Let_def rest_def [symmetric])
  qed
qed

lemma json_span_shape:
  assumes "json_span text = Some js"
  shows "\<exists>pre post. text = pre @ js @ post \<and> CHR ''{'' \<notin> set pre \<and> CHR ''}'' \<notin> set post
           \<and> hd js = CHR ''{'' \<and> last js = CHR ''}''"
proof -
  define pre where "pre = takeWhile (\<lambda>c. c \<noteq> CHR ''{'') text"
  define rest where "rest = dropWhile (\<lambda>c. c \<noteq> CHR ''{'') text"
  have decomp: "text = pre @ rest" by (simp add: pre_def rest_def)
  have in_rest: "CHR ''}'' \<in> set rest"
    and js: "js = rev (dropWhile (\<lambda>c. c \<noteq> CHR ''}'') (rev rest))"
    using assms by (auto simp: json_span_eq rest_def split: if_splits)
  obtain R1 R2 where rest: "rest = R1 @ CHR ''}'' # R2" and R2: "CHR ''}'' \<notin> set R2"
    using in_rest by (meson split_list_last)
  have js': "js = R1 @ [CHR ''}'']"
    using dropWhile_upto [of "CHR ''}''" "rev R2" "rev R1"] R2 by (simp add: js rest)
  have "rest \<noteq> []" using in_rest by auto
  then have "hd rest = CHR ''{''"
    using hd_dropWhile [of "\<lambda>c. c \<noteq> CHR ''{''" "text"] by (simp add: rest_def)
  then have "hd js = CHR ''{''"
    using rest js' by (cases R1) auto
  moreover have "CHR ''{'' \<notin> set pre"
    by (auto simp: pre_def dest: set_takeWhileD)
  moreover have "text = pre @ js @ R2" using decomp rest js' by simp
  ultimately show ?thesis using R2 js' by auto
qed

section \<open>State that the display calls leave alone\<close>

lemma st_frame:
  "messages (st ev a) = messages a" "sent (st ev a) = sent a"
  "groq_client_api_key (st ev a) = groq_client_api_key a"
  by (simp_all add: st_def)

lemma st_screen: "screen (st ev a) = screen a @ [ev]"
  by (simp add: st_def)

lemma append_message_sel:
  "messages (append_message m a) = messages a @ [m]"
  "sent (append_message m a) = sent a"
  "screen (append_message m a) = screen a"
  "groq_client_api_key (append_message m a) = groq_client_api_key a"
  by (simp_all add: append_message_def)

lemma visualize_span_frame:
  "messages (snd (visualize_span env theme s a)) = messages a"
  "sent (snd (visualize_span env theme s a)) = sent a"
  "groq_client_api_key (snd (visualize_span env theme s a)) = groq_client_api_key a"
  by (auto simp: visualize_span_def st_frame Let_def split: sum.splits option.splits prod.splits)

lemma create_visualization_frame:
  "messages (snd (create_visualization env theme text a)) = messages a"
  "sent (snd (create_visualization env theme text a)) = sent a"
  "groq_client_api_key (snd (create_visualization env theme text a)) = groq_client_api_key a"
  by (auto simp: create_visualization_def visualize_span_frame st_frame
      split: pyval.splits option.splits)

lemma canvas_frame: "messages (snd (canvas env cs am a)) = messages a"
  by (auto simp: canvas_def st_frame split: sum.splits option.splits)

lemma display_history_frame: "messages (display_history env theme ms a) = messages a"
  by (induction ms arbitrary: a) (auto simp: Let_def st_frame create_visualization_frame)

section \<open>A decoded payload\<close>

lemma in_keys: "k \<in> fst ` set d \<longleftrightarrow> map_of d k \<noteq> None"
  by (simp add: map_of_eq_None_iff)

lemma make_figure_sel:
  "fig_title (make_figure theme ct t f) = t" "data_frame (make_figure theme ct t f) = f"
  "px (make_figure theme ct t f) = chart_of ct"
  by (simp_all add: make_figure_def)

lemma chart_frame_present:
  assumes "json_loads env js = Inr payload"
    and "chart_spec theme payload = Some fig"
  shows "chart_frame env js =
           (case DataFrame env (data_frame fig) of
              Some e \<Rightarrow> Inl e
            | None \<Rightarrow>
                Inr (Some (case top_field payload ''chart_type'' of
                             None \<Rightarrow> PStr ''bar'' | Some c \<Rightarrow> c,
                           fig_title fig, data_frame fig)))"
  using assms
  by (auto simp: chart_frame_def chart_spec_def column_def top_field_def bind_exn_def in_keys
      make_figure_def Let_def
      split: pyval.splits option.splits)

lemma chart_frame_absent:
  assumes "json_loads env js = Inr payload"
    and "chart_spec theme payload = None"
  shows "case chart_frame env js of Inr (Some x) \<Rightarrow> False | _ \<Rightarrow> True"
  using assms
  by (auto simp: chart_frame_def chart_spec_def column_def top_field_def bind_exn_def in_keys
      make_figure_def Let_def
      split: pyval.splits option.splits sum.splits)

lemma create_visualization_present:
  assumes "json_span text = Some js" and "json_loads env js = Inr payload"
    and "chart_spec theme payload = Some fig"
  shows "create_visualization env theme (PStr text) a =
           (case DataFrame env (data_frame fig) of
              Some e \<Rightarrow> (False, st (VisualizationError e) a)
            | None \<Rightarrow>
                (case plotly env fig of
                   Some e \<Rightarrow> (False, st (VisualizationError e) (st (Subheader (fig_title fig)) a))
                 | None \<Rightarrow> (True, st (PlotlyChart fig) (st (Subheader (fig_title fig)) a))))"
proof -
  let ?ct = "case top_field payload ''chart_type'' of None \<Rightarrow> PStr ''bar'' | Some c \<Rightarrow> c"
  have fig: "make_figure theme ?ct (fig_title fig) (data_frame fig) = fig"
    using assms(3) by (auto simp: chart_spec_def make_figure_sel split: option.splits)
  show ?thesis
    using chart_frame_present [OF assms(2,3)] assms(1) fig
    by (simp add: create_visualization_def visualize_span_def Let_def split: option.splits)
qed

lemma create_visualization_absent:
  assumes "json_span text = Some js" and "json_loads env js = Inr payload"
    and "chart_spec theme payload = None"
  shows "\<not> fst (create_visualization env theme (PStr text) a)"
  using chart_frame_absent [OF assms(2,3)] assms(1)
  by (auto simp: create_visualization_def visualize_span_def split: sum.splits option.splits)

text \<open>The decoder is asked about the span and about nothing else.\<close>

lemma visualize_span_decoder:
  assumes "json_loads env' js' = json_loads env js"
    and "DataFrame env' = DataFrame env" and "plotly env' = plotly env"
  shows "visualize_span env' theme js' a = visualize_span env theme js a"
proof -
  have "chart_frame env' js' = chart_frame env js"
    unfolding chart_frame_def assms(1) assms(2) by (rule refl)
  then show ?thesis
    unfolding visualize_span_def assms(3) by simp
qed

section \<open>The chat turn\<close>

lemma assistant_content_found:
  "assistant_content d = Inr c \<longleftrightarrow> reply_content d = Some c"
  by (auto simp: assistant_content_def reply_content_def top_field_def bind_exn_def
      split: pyval.splits option.splits list.splits)

lemma chat_input_none:
  "chat_input env theme None a = a" "chat_input env theme (Some []) a = a"
  by (simp_all add: chat_input_def)

lemma chat_input_messages:
  assumes "p \<noteq> []"
  shows "messages (chat_input env theme (Some p) a) =
           messages a @ \<lparr>role = User, content = PStr p\<rparr> #
             (case gateway_reply (requests_post env (groq_client_api_key a)
                     (messages a @ [\<lparr>role = User, content = PStr p\<rparr>])) of
                None \<Rightarrow> []
              | Some c \<Rightarrow> [\<lparr>role = Assistant, content = c\<rparr>])"
  using assms
  by (simp add: chat_input_def gateway_reply_def Let_def append_message_sel st_frame
      create_visualization_frame split: sum.splits)

lemma chat_input_sent:
  assumes "p \<noteq> []"
  shows "sent (chat_input env theme (Some p) a) =
           sent a @ [messages a @ [\<lparr>role = User, content = PStr p\<rparr>]]"
  using assms
  by (simp add: chat_input_def Let_def append_message_sel st_frame
      create_visualization_frame split: sum.splits)

lemma chat_input_failed_screen:
  assumes "p \<noteq> []"
    and "gateway_reply (requests_post env (groq_client_api_key a)
           (messages a @ [\<lparr>role = User, content = PStr p\<rparr>])) = None"
  shows "\<exists>ev. screen (chat_input env theme (Some p) a) =
           screen a @ [ChatMessage User, Markdown (PStr p), ChatMessage Assistant, ev]
         \<and> is_error ev"
  using assms
  by (auto simp: chat_input_def gateway_reply_def Let_def append_message_sel st_frame st_screen
      split: sum.splits if_splits)

lemma chat_input_appends:
  "\<exists>added. messages (chat_input env theme pr a) = messages a @ added
             \<and> list_all (\<lambda>m. role m \<noteq> System) added"
proof (cases pr)
  case None
  then show ?thesis by (simp add: chat_input_none)
next
  case (Some p)
  show ?thesis
  proof (cases "p = []")
    case True
    then show ?thesis using Some by (simp add: chat_input_none)
  next
    case False
    then show ?thesis
      using chat_input_messages [OF False, of env theme a] Some
      by (auto split: option.splits)
  qed
qed

section \<open>One run and the log\<close>

lemma wf_log_append:
  "wf_log ms \<Longrightarrow> list_all (\<lambda>m. role m \<noteq> System) added \<Longrightarrow> wf_log (ms @ added)"
  by (auto simp: wf_log_def split: list.splits)

lemma wf_log_seed: "wf_log [system_message]"
  by (simp add: wf_log_def)

lemma finish_sel: "state_messages (state (finish out a)) = Some (messages a)"
  by (simp add: finish_def)

lemma run_script_stopped: "api_key inp = [] \<Longrightarrow> state (run_script env inp ss) = ss"
  by (simp add: run_script_def)

lemma run_script_clear:
  assumes "api_key inp \<noteq> []" and "clear_clicked inp"
    and "case state_messages ss of None \<Rightarrow> True | Some ms \<Rightarrow> wf_log ms"
  shows "state_messages (state (run_script env inp ss)) = Some [system_message]"
proof -
  define start where
    "start = (case state_messages ss of None \<Rightarrow> [system_message] | Some ms \<Rightarrow> ms)"
  have wf: "wf_log start"
    using assms(3) by (auto simp: start_def wf_log_seed split: option.splits)
  define a1 where "a1 = display_history env (theme_choice inp) (history start)
     \<lparr>groq_client_api_key = api_key inp, messages = start, screen = [], sent = []\<rparr>"
  define a2 where "a2 = chat_input env (theme_choice inp) (prompt inp) a1"
  have m1: "messages a1 = start" by (simp add: a1_def display_history_frame)
  obtain added where "messages a2 = start @ added"
    using chat_input_appends [of env "theme_choice inp" "prompt inp" a1] m1
    by (auto simp: a2_def)
  then obtain rest where "messages a2 = system_message # rest"
    using wf by (auto simp: wf_log_def split: list.splits)
  then have "clear_chat_history a2 = Inr (a2\<lparr>messages := [system_message]\<rparr>)"
    by (simp add: clear_chat_history_def)
  then show ?thesis
    using assms(1,2)
    by (simp add: run_script_def Let_def start_def [symmetric] a1_def [symmetric]
        a2_def [symmetric] finish_sel)
qed

lemma run_script_keep:
  assumes "api_key inp \<noteq> []" and "\<not> clear_clicked inp"
  shows "\<exists>added. state_messages (state (run_script env inp ss)) =
           Some ((case state_messages ss of None \<Rightarrow> [system_message] | Some ms \<Rightarrow> ms) @ added)
         \<and> list_all (\<lambda>m. role m \<noteq> System) added"
proof -
  define start where
    "start = (case state_messages ss of None \<Rightarrow> [system_message] | Some ms \<Rightarrow> ms)"
  define a1 where "a1 = display_history env (theme_choice inp) (history start)
     \<lparr>groq_client_api_key = api_key inp, messages = start, screen = [], sent = []\<rparr>"
  define a2 where "a2 = chat_input env (theme_choice inp) (prompt inp) a1"
  have m1: "messages a1 = start" by (simp add: a1_def display_history_frame)
  obtain added where added: "messages a2 = start @ added"
      "list_all (\<lambda>m. role m \<noteq> System) added"
    using chat_input_appends [of env "theme_choice inp" "prompt inp" a1] m1
    by (auto simp: a2_def)
  have cv: "messages (snd (canvas env (categories inp) (amounts inp) a2)) = messages a2"
    by (rule canvas_frame)
  have "state_messages (state (run_script env inp ss)) = Some (messages a2)"
    using assms cv
    by (auto simp: run_script_def Let_def start_def [symmetric] a1_def [symmetric]
        a2_def [symmetric] finish_sel split: prod.splits option.splits)
  then show ?thesis using added by (auto simp: start_def)
qed

section \<open>The claims\<close>

text \<open>
  Claim C1. For every text, \<open>create_visualization\<close> returns False and shows nothing when
  the text has no opening brace, or no closing brace after the first opening one.
  Otherwise it takes exactly the text from the first opening brace to the last closing
  brace, both included, and decodes that span: an exception of the decoder on the span
  is the error shown, a payload decoded from the span decides the chart, and two texts
  whose spans get the same answer from the decoder get the same result.
\<close>

theorem create_visualization_span:
  "create_visualization env theme (PStr text) a =
     (if CHR ''{'' \<in> set text \<and> CHR ''}'' \<in> set (dropWhile (\<lambda>c. c \<noteq> CHR ''{'') text)
      then visualize_span env theme
             (rev (dropWhile (\<lambda>c. c \<noteq> CHR ''}'')
                (rev (dropWhile (\<lambda>c. c \<noteq> CHR ''{'') text)))) a
      else (False, a))
   \<and> (\<forall>js. json_span text = Some js \<longrightarrow>
         create_visualization env theme (PStr text) a = visualize_span env theme js a
         \<and> (\<exists>pre post. text = pre @ js @ post \<and> CHR ''{'' \<notin> set pre \<and> CHR ''}'' \<notin> set post
               \<and> hd js = CHR ''{'' \<and> last js = CHR ''}'')
         \<and> (\<forall>e. json_loads env js = Inl e \<longrightarrow>
               create_visualization env theme (PStr text) a =
                 (False, st (VisualizationError e) a))
         \<and> (\<forall>payload fig. json_loads env js = Inr payload \<and> chart_spec theme payload = Some fig \<longrightarrow>
               create_visualization env theme (PStr text) a =
                 (case DataFrame env (data_frame fig) of
                    Some e \<Rightarrow> (False, st (VisualizationError e) a)
                  | None \<Rightarrow>
                      (case plotly env fig of
                         Some e \<Rightarrow>
                           (False, st (VisualizationError e) (st (Subheader (fig_title fig)) a))
                       | None \<Rightarrow>
                           (True, st (PlotlyChart fig) (st (Subheader (fig_title fig)) a)))))
         \<and> (\<forall>payload. json_loads env js = Inr payload \<and> chart_spec theme payload = None \<longrightarrow>
               \<not> fst (create_visualization env theme (PStr text) a))
         \<and> (\<forall>env' text' js'.
               json_span text' = Some js' \<and> json_loads env' js' = json_loads env js
               \<and> DataFrame env' = DataFrame env \<and> plotly env' = plotly env \<longrightarrow>
               create_visualization env' theme (PStr text') a =
                 create_visualization env theme (PStr text) a))"
proof (intro conjI allI impI)
  show "create_visualization env theme (PStr text) a =
     (if CHR ''{'' \<in> set text \<and> CHR ''}'' \<in> set (dropWhile (\<lambda>c. c \<noteq> CHR ''{'') text)
      then visualize_span env theme
             (rev (dropWhile (\<lambda>c. c \<noteq> CHR ''}'')
                (rev (dropWhile (\<lambda>c. c \<noteq> CHR ''{'') text)))) a
      else (False, a))"
    by (simp add: create_visualization_def json_span_eq)
next
  fix js assume js: "json_span text = Some js"
  show "create_visualization env theme (PStr text) a = visualize_span env theme js a"
    using js by (simp add: create_visualization_def)
  show "\<exists>pre post. text = pre @ js @ post \<and> CHR ''{'' \<notin> set pre \<and> CHR ''}'' \<notin> set post
               \<and> hd js = CHR ''{'' \<and> last js = CHR ''}''"
    using json_span_shape [OF js] .
  { fix e assume "json_loads env js = Inl e"
    then show "create_visualization env theme (PStr text) a =
                 (False, st (VisualizationError e) a)"
      using js
      by (simp add: create_visualization_def visualize_span_def chart_frame_def bind_exn_def) }
  { fix payload fig
    assume "json_loads env js = Inr payload \<and> chart_spec theme payload = Some fig"
    then show "create_visualization env theme (PStr text) a =
                 (case DataFrame env (data_frame fig) of
                    Some e \<Rightarrow> (False, st (VisualizationError e) a)
                  | None \<Rightarrow>
                      (case plotly env fig of
                         Some e \<Rightarrow>
                           (False, st (VisualizationError e) (st (Subheader (fig_title fig)) a))
                       | None \<Rightarrow>
                           (True, st (PlotlyChart fig) (st (Subheader (fig_title fig)) a))))"
      using create_visualization_present [OF js, of env payload theme fig a] by simp }
  { fix payload
    assume "json_loads env js = Inr payload \<and> chart_spec theme payload = None"
    then show "\<not> fst (create_visualization env theme (PStr text) a)"
      using create_visualization_absent [OF js, of env payload theme a] by simp }
  { fix env' :: libs and text' js'
    assume h: "json_span text' = Some js' \<and> json_loads env' js' = json_loads env js
               \<and> DataFrame env' = DataFrame env \<and> plotly env' = plotly env"
    then show "create_visualization env' theme (PStr text') a =
                 create_visualization env theme (PStr text) a"
      using js visualize_span_decoder [of env' js' env js theme a]
      by (simp add: create_visualization_def) }
qed

theorem create_visualization_span_witness:
  \<open>create_visualization example_libs NightMode
      (PStr ''Keep three months of expenses in cash.'') example_app = (False, example_app)
   \<and> json_span ''Try {x} instead'' = Some ''{x}''
   \<and> json_loads example_libs ''{x}'' = Inl (Exn ValueError
          ''Expecting property name enclosed in double quotes: line 1 column 2 (char 1)'')
   \<and> create_visualization example_libs NightMode (PStr ''Try {x} instead'') example_app =
       (False, st (VisualizationError (Exn ValueError
          ''Expecting property name enclosed in double quotes: line 1 column 2 (char 1)''))
          example_app)
   \<and> create_visualization example_libs NightMode (PStr ''{x}'') example_app =
       create_visualization example_libs NightMode (PStr ''Try {x} instead'') example_app\<close>
proof -
  have h: "json_span ''Try {x} instead'' = Some ''{x}''" by (simp add: json_span_eq)
  have h': "json_span ''{x}'' = Some ''{x}''" by (simp add: json_span_eq)
  have d: "json_loads example_libs ''{x}'' = Inl (Exn ValueError
          ''Expecting property name enclosed in double quotes: line 1 column 2 (char 1)'')"
    by (simp add: example_libs_def example_json_def)
  have none: "create_visualization example_libs NightMode
      (PStr ''Keep three months of expenses in cash.'') example_app = (False, example_app)"
    using create_visualization_span
        [of example_libs NightMode "''Keep three months of expenses in cash.''" example_app]
    by simp
  note span = create_visualization_span
      [of example_libs NightMode "''Try {x} instead''" example_app, THEN conjunct2, rule_format, OF h]
  have err: "create_visualization example_libs NightMode (PStr ''Try {x} instead'') example_app =
       (False, st (VisualizationError (Exn ValueError
          ''Expecting property name enclosed in double quotes: line 1 column 2 (char 1)''))
          example_app)"
    using span d by blast
  have same: "create_visualization example_libs NightMode (PStr ''{x}'') example_app =
       create_visualization example_libs NightMode (PStr ''Try {x} instead'') example_app"
    using span h' by blast
  show ?thesis using none h d err same by blast
qed

text \<open>
  Claim C2, as amended. When the span decodes, \<open>create_visualization\<close> returns True
  exactly when both \<open>data.labels\<close> and \<open>data.values\<close> are present and neither the data
  frame nor the figure raises; then the chart shown is a pie or a line chart when
  \<open>chart_type\<close> says so and a bar chart otherwise, and its title is the payload's or
  \<open>Financial Analysis\<close> when the key is absent. On a payload that has only a title it returns False and shows nothing.
\<close>

theorem chart_iff_columns_and_libraries:
  assumes "json_span text = Some js" and "json_loads env js = Inr payload"
  shows "(fst (create_visualization env theme (PStr text) a) \<longleftrightarrow>
            (\<exists>fig. chart_spec theme payload = Some fig \<and> DataFrame env (data_frame fig) = None
                 \<and> plotly env fig = None))
       \<and> (\<forall>fig. chart_spec theme payload = Some fig \<and> DataFrame env (data_frame fig) = None
                 \<and> plotly env fig = None \<longrightarrow>
              snd (create_visualization env theme (PStr text) a) =
                st (PlotlyChart fig) (st (Subheader (fig_title fig)) a)
            \<and> px fig = (if top_field payload ''chart_type'' = Some (PStr ''pie'') then Pie
                        else if top_field payload ''chart_type'' = Some (PStr ''line'') then Line
                        else Bar)
            \<and> fig_title fig = (case top_field payload ''title'' of
                                 None \<Rightarrow> PStr ''Financial Analysis'' | Some t \<Rightarrow> t))
       \<and> (payload = PDict [(''title'', PStr ''T'')] \<longrightarrow>
              create_visualization env theme (PStr text) a = (False, a))"
proof (intro conjI allI impI)
  show "fst (create_visualization env theme (PStr text) a) \<longleftrightarrow>
            (\<exists>fig. chart_spec theme payload = Some fig \<and> DataFrame env (data_frame fig) = None
                 \<and> plotly env fig = None)"
  proof (cases "chart_spec theme payload")
    case None
    then show ?thesis using create_visualization_absent [OF assms None] by simp
  next
    case (Some fig)
    then show ?thesis
      using create_visualization_present [OF assms Some, of a]
      by (auto split: option.splits)
  qed
next
  fix fig
  assume h: "chart_spec theme payload = Some fig \<and> DataFrame env (data_frame fig) = None
                 \<and> plotly env fig = None"
  then show "snd (create_visualization env theme (PStr text) a) =
                st (PlotlyChart fig) (st (Subheader (fig_title fig)) a)"
    using create_visualization_present [OF assms, of theme fig a] by simp
  from h show "px fig = (if top_field payload ''chart_type'' = Some (PStr ''pie'') then Pie
                        else if top_field payload ''chart_type'' = Some (PStr ''line'') then Line
                        else Bar)"
    by (auto simp: chart_spec_def make_figure_sel chart_of_def split: option.splits)
  from h show "fig_title fig = (case top_field payload ''title'' of
                                 None \<Rightarrow> PStr ''Financial Analysis'' | Some t \<Rightarrow> t)"
    by (auto simp: chart_spec_def make_figure_sel split: option.splits)
next
  assume "payload = PDict [(''title'', PStr ''T'')]"
  then show "create_visualization env theme (PStr text) a = (False, a)"
    using assms
    by (simp add: create_visualization_def visualize_span_def chart_frame_def bind_exn_def)
qed

theorem chart_iff_columns_and_libraries_witness:
  \<open>json_span ''Plan: {"chart_type":"pie","title":"T","data":{"labels":["A","B"],"values":[1,2]}} done''
      = Some ''{"chart_type":"pie","title":"T","data":{"labels":["A","B"],"values":[1,2]}}''
   \<and> json_loads example_libs
        ''{"chart_type":"pie","title":"T","data":{"labels":["A","B"],"values":[1,2]}}''
      = Inr (PDict [(''chart_type'', PStr ''pie''), (''title'', PStr ''T''),
                    (''data'', PDict [(''labels'', PList [PStr ''A'', PStr ''B'']),
                                      (''values'', PList [PInt 1, PInt 2])])])
   \<and> fst (create_visualization example_libs DayMode
        (PStr ''Plan: {"chart_type":"pie","title":"T","data":{"labels":["A","B"],"values":[1,2]}} done'')
        example_app)\<close>
proof -
  let ?text = \<open>''Plan: {"chart_type":"pie","title":"T","data":{"labels":["A","B"],"values":[1,2]}} done''\<close>
  let ?js = \<open>''{"chart_type":"pie","title":"T","data":{"labels":["A","B"],"values":[1,2]}}''\<close>
  let ?payload = "PDict [(''chart_type'', PStr ''pie''), (''title'', PStr ''T''),
                    (''data'', PDict [(''labels'', PList [PStr ''A'', PStr ''B'']),
                                      (''values'', PList [PInt 1, PInt 2])])]"
  have h1: "json_span ?text = Some ?js" by (simp add: json_span_eq)
  have h2: "json_loads example_libs ?js = Inr ?payload"
    by (simp add: example_libs_def example_json_def)
  have h3: "\<exists>fig. chart_spec DayMode ?payload = Some fig
              \<and> DataFrame example_libs (data_frame fig) = None \<and> plotly example_libs fig = None"
    by (simp add: chart_spec_def column_def top_field_def make_figure_def example_libs_def)
  show ?thesis
    using chart_iff_columns_and_libraries [OF h1 h2, of DayMode example_app] h1 h2 h3 by blast
qed

text \<open>
  The claim as it was written fails on a payload that has both columns, of different
  lengths: the span decodes, both keys are present, the data frame raises, and the
  function shows the error and returns False.
\<close>

theorem chart_iff_columns_counterexample:
  \<open>json_span ''{"data":{"labels":["A","B"],"values":[1]}}''
      = Some ''{"data":{"labels":["A","B"],"values":[1]}}''
   \<and> json_loads example_libs ''{"data":{"labels":["A","B"],"values":[1]}}''
      = Inr (PDict [(''data'', PDict [(''labels'', PList [PStr ''A'', PStr ''B'']),
                                      (''values'', PList [PInt 1])])])
   \<and> column (PDict [(''data'', PDict [(''labels'', PList [PStr ''A'', PStr ''B'']),
                                      (''values'', PList [PInt 1])])]) ''labels''
      = Some (PList [PStr ''A'', PStr ''B''])
   \<and> column (PDict [(''data'', PDict [(''labels'', PList [PStr ''A'', PStr ''B'']),
                                      (''values'', PList [PInt 1])])]) ''values''
      = Some (PList [PInt 1])
   \<and> create_visualization example_libs DayMode
        (PStr ''{"data":{"labels":["A","B"],"values":[1]}}'') example_app
      = (False, st (VisualizationError (Exn ValueError ''All arrays must be of the same length''))
                  example_app)\<close>
  by (simp add: json_span_eq example_libs_def example_json_def column_def top_field_def
      create_visualization_def visualize_span_def chart_frame_def bind_exn_def)

text \<open>
  Claim C3. A run of the script keeps the invariant of the log: its first element is
  the system message and no other element has the system role. A run without the Clear
  button only adds messages at the end of the log it found (a run stopped for want of a
  key leaves the state as it is); a run with the button leaves exactly the system
  message, so that the history is empty. \<open>append_message\<close> adds at the end.
\<close>

theorem message_log_invariant:
  assumes "case state_messages ss of None \<Rightarrow> True | Some ms \<Rightarrow> wf_log ms"
  shows "(case state_messages (state (run_script env inp ss)) of
            None \<Rightarrow> api_key inp = [] \<and> state_messages ss = None
          | Some ms' \<Rightarrow> wf_log ms')
       \<and> (api_key inp \<noteq> [] \<and> clear_clicked inp \<longrightarrow>
            state_messages (state (run_script env inp ss)) = Some [system_message]
            \<and> history [system_message] = [])
       \<and> (api_key inp \<noteq> [] \<and> \<not> clear_clicked inp \<longrightarrow>
            (\<exists>added. state_messages (state (run_script env inp ss)) =
               Some ((case state_messages ss of None \<Rightarrow> [system_message] | Some ms \<Rightarrow> ms)
                     @ added)))
       \<and> (api_key inp = [] \<longrightarrow>
            state_messages (state (run_script env inp ss)) = state_messages ss)
       \<and> messages (append_message m a) = messages a @ [m]"
proof (cases "api_key inp = []")
  case True
  then show ?thesis
    using assms by (auto simp: run_script_stopped append_message_sel split: option.splits)
next
  case key: False
  show ?thesis
  proof (cases "clear_clicked inp")
    case True
    then show ?thesis
      using run_script_clear [OF key True assms, of env] key
      by (simp add: wf_log_seed history_def append_message_sel)
  next
    case False
    obtain added where added: "state_messages (state (run_script env inp ss)) =
           Some ((case state_messages ss of None \<Rightarrow> [system_message] | Some ms \<Rightarrow> ms) @ added)"
      "list_all (\<lambda>m. role m \<noteq> System) added"
      using run_script_keep [OF key False, of env ss] by blast
    have "wf_log (case state_messages ss of None \<Rightarrow> [system_message] | Some ms \<Rightarrow> ms)"
      using assms by (auto simp: wf_log_seed split: option.splits)
    then have "wf_log ((case state_messages ss of None \<Rightarrow> [system_message] | Some ms \<Rightarrow> ms)
                       @ added)"
      using added(2) by (rule wf_log_append)
    then show ?thesis
      using added(1) key False by (simp add: append_message_sel)
  qed
qed

theorem message_log_invariant_witness:
  "state_messages (state (run_script example_libs example_inputs fresh_session)) =
     Some [system_message,
           \<lparr>role = User, content = PStr ''How much should I save?''\<rparr>,
           \<lparr>role = Assistant, content = PStr ''Spend less than you earn.''\<rparr>]
   \<and> wf_log [system_message,
           \<lparr>role = User, content = PStr ''How much should I save?''\<rparr>,
           \<lparr>role = Assistant, content = PStr ''Spend less than you earn.''\<rparr>]
   \<and> state_messages (state (run_script example_libs
        (example_inputs\<lparr>prompt := None, clear_clicked := True\<rparr>)
        (state (run_script example_libs example_inputs fresh_session)))) = Some [system_message]"
proof -
  have h0: "case state_messages fresh_session of None \<Rightarrow> True | Some ms \<Rightarrow> wf_log ms"
    by (simp add: fresh_session_def)
  have run1: "state_messages (state (run_script example_libs example_inputs fresh_session)) =
     Some [system_message,
           \<lparr>role = User, content = PStr ''How much should I save?''\<rparr>,
           \<lparr>role = Assistant, content = PStr ''Spend less than you earn.''\<rparr>]"
    by (simp add: run_script_def example_inputs_def fresh_session_def Let_def finish_sel
        chat_input_messages gateway_reply_def example_libs_def example_response_def
        assistant_content_def bind_exn_def history_def)
  have wf1: "case state_messages (state (run_script example_libs example_inputs fresh_session)) of
               None \<Rightarrow> True | Some ms \<Rightarrow> wf_log ms"
    using message_log_invariant [OF h0, where env = example_libs and inp = example_inputs
          and m = system_message and a = example_app]
    by (simp split: option.splits)
  have k: "api_key (example_inputs\<lparr>prompt := None, clear_clicked := True\<rparr>) \<noteq> []
         \<and> clear_clicked (example_inputs\<lparr>prompt := None, clear_clicked := True\<rparr>)"
    by (simp add: example_inputs_def)
  show ?thesis
    using message_log_invariant [OF wf1, where env = example_libs
          and inp = "example_inputs\<lparr>prompt := None, clear_clicked := True\<rparr>"
          and m = system_message and a = example_app]
      message_log_invariant [OF h0, where env = example_libs and inp = example_inputs
          and m = system_message and a = example_app] run1 k
    by simp
qed

text \<open>
  Claim C4, as amended. In a turn with a non-empty prompt, when the call to the endpoint
  raises, or the status is not 200, or the body does not decode, or the body has no
  \<open>choices[0].message.content\<close>, the log after the turn is the log before it with the
  user's message added and nothing else, and the page ends with an error. When the
  status is 200 and the body has a content, the content is added as the assistant's
  message whatever value it is.
\<close>

theorem gateway_failure_keeps_user_message:
  assumes "p \<noteq> []"
    and "requests_post env (groq_client_api_key a)
           (messages a @ [\<lparr>role = User, content = PStr p\<rparr>]) = res"
  shows "((\<exists>e. res = Inl e)
          \<or> (\<exists>r. res = Inr r \<and>
                (status_code r \<noteq> 200 \<or> (\<exists>e. json r = Inl e)
                 \<or> (\<exists>d. json r = Inr d \<and> reply_content d = None))) \<longrightarrow>
          messages (chat_input env theme (Some p) a) =
            messages a @ [\<lparr>role = User, content = PStr p\<rparr>]
          \<and> (\<exists>ev. screen (chat_input env theme (Some p) a) =
                     screen a @ [ChatMessage User, Markdown (PStr p), ChatMessage Assistant, ev]
                   \<and> is_error ev))
       \<and> (\<forall>r d c. res = Inr r \<and> status_code r = 200 \<and> json r = Inr d
                   \<and> reply_content d = Some c \<longrightarrow>
            messages (chat_input env theme (Some p) a) =
              messages a @ [\<lparr>role = User, content = PStr p\<rparr>,
                            \<lparr>role = Assistant, content = c\<rparr>])"
proof (intro conjI allI impI)
  assume f: "(\<exists>e. res = Inl e)
          \<or> (\<exists>r. res = Inr r \<and>
                (status_code r \<noteq> 200 \<or> (\<exists>e. json r = Inl e)
                 \<or> (\<exists>d. json r = Inr d \<and> reply_content d = None)))"
  have none: "gateway_reply res = None"
    using f by (auto simp: gateway_reply_def assistant_content_found split: sum.splits)
  show "messages (chat_input env theme (Some p) a) =
            messages a @ [\<lparr>role = User, content = PStr p\<rparr>]"
    using none chat_input_messages [OF assms(1), of env theme a] assms(2) by simp
  show "\<exists>ev. screen (chat_input env theme (Some p) a) =
                     screen a @ [ChatMessage User, Markdown (PStr p), ChatMessage Assistant, ev]
                   \<and> is_error ev"
    using none chat_input_failed_screen [OF assms(1), of env a theme] assms(2) by simp
next
  fix r d c
  assume "res = Inr r \<and> status_code r = 200 \<and> json r = Inr d \<and> reply_content d = Some c"
  then have "gateway_reply res = Some c"
    by (simp add: gateway_reply_def assistant_content_found [symmetric])
  then show "messages (chat_input env theme (Some p) a) =
              messages a @ [\<lparr>role = User, content = PStr p\<rparr>,
                            \<lparr>role = Assistant, content = c\<rparr>]"
    using chat_input_messages [OF assms(1), of env theme a] assms(2) by simp
qed

theorem gateway_failure_keeps_user_message_witness:
  "messages (chat_input example_libs DayMode (Some ''How much should I save?'') example_app) =
     [system_message, \<lparr>role = User, content = PStr ''How much should I save?''\<rparr>]
   \<and> (\<exists>ev. screen (chat_input example_libs DayMode (Some ''How much should I save?'')
                      example_app) =
             [ChatMessage User, Markdown (PStr ''How much should I save?''),
              ChatMessage Assistant, ev]
           \<and> is_error ev)"
proof -
  let ?p = "''How much should I save?''"
  have h1: "?p \<noteq> []" by simp
  have h2: "requests_post example_libs (groq_client_api_key example_app)
              (messages example_app @ [\<lparr>role = User, content = PStr ?p\<rparr>])
            = Inr (example_response ''expired'')"
    by (simp add: example_libs_def example_app_def)
  have h3: "(\<exists>e. (Inr (example_response ''expired'') :: exn + response) = Inl e)
       \<or> (\<exists>r. Inr (example_response ''expired'') = (Inr r :: exn + response) \<and>
             (status_code r \<noteq> 200 \<or> (\<exists>e. json r = Inl e)
              \<or> (\<exists>d. json r = Inr d \<and> reply_content d = None)))"
    by (simp add: example_response_def)
  show ?thesis
    using gateway_failure_keeps_user_message [OF h1 h2, of DayMode, THEN conjunct1] h3
    by (simp add: example_app_def)
qed

text \<open>
  The claim as it was written fails on a body that is malformed in that its content is
  not a text: the status is 200, the content is \<^verbatim>\<open>null\<close>, and after the turn the log
  holds an assistant message with that content.
\<close>

theorem malformed_content_counterexample:
  "requests_post null_content_libs (groq_client_api_key example_app)
     (messages example_app @ [\<lparr>role = User, content = PStr ''How much should I save?''\<rparr>])
     = Inr null_content_response
   \<and> status_code null_content_response = 200
   \<and> json null_content_response =
       Inr (PDict [(''choices'',
              PList [PDict [(''message'',
                PDict [(''role'', PStr ''assistant''), (''content'', PNone)])]])])
   \<and> reply_content (PDict [(''choices'',
              PList [PDict [(''message'',
                PDict [(''role'', PStr ''assistant''), (''content'', PNone)])]])]) = Some PNone
   \<and> messages (chat_input null_content_libs DayMode (Some ''How much should I save?'')
        example_app) =
       [system_message,
        \<lparr>role = User, content = PStr ''How much should I save?''\<rparr>,
        \<lparr>role = Assistant, content = PNone\<rparr>]"
  by (simp add: null_content_libs_def null_content_response_def example_libs_def example_app_def
      reply_content_def top_field_def chat_input_messages gateway_reply_def
      assistant_content_def bind_exn_def)

text \<open>
  Claim C5, as amended. The entries of \<open>values\<close> are not inspected: when the span
  decodes with both columns present, the columns reach the data frame as they were
  decoded, also when an entry is not a number, and the chart is shown whenever neither
  the data frame nor the figure raises.
\<close>

theorem non_numeric_values_charted:
  assumes "json_span text = Some js" and "json_loads env js = Inr payload"
    and "column payload ''labels'' = Some labels"
    and "column payload ''values'' = Some (PList vs)"
    and "\<exists>v \<in> set vs. \<not> numeric v"
  shows "\<exists>fig. chart_spec theme payload = Some fig
           \<and> data_frame fig = \<lparr>Category = labels, Amount = PList vs\<rparr>
           \<and> (DataFrame env (data_frame fig) = None \<and> plotly env fig = None \<longrightarrow>
                create_visualization env theme (PStr text) a =
                  (True, st (PlotlyChart fig) (st (Subheader (fig_title fig)) a)))"
proof -
  obtain fig where fig: "chart_spec theme payload = Some fig"
    and fr: "data_frame fig = \<lparr>Category = labels, Amount = PList vs\<rparr>"
    using assms(3,4) by (simp add: chart_spec_def make_figure_sel)
  show ?thesis
    using create_visualization_present [OF assms(1,2) fig, of a] fig fr by auto
qed

theorem non_numeric_values_charted_witness:
  \<open>(\<exists>v \<in> set [PStr ''abc'']. \<not> numeric v)
   \<and> create_visualization example_libs DayMode
        (PStr ''{"data":{"labels":["A"],"values":["abc"]}}'') example_app
      = (True,
         st (PlotlyChart (make_figure DayMode (PStr ''bar'') (PStr ''Financial Analysis'')
                            \<lparr>Category = PList [PStr ''A''], Amount = PList [PStr ''abc'']\<rparr>))
           (st (Subheader (PStr ''Financial Analysis'')) example_app))\<close>
proof -
  let ?text = \<open>''{"data":{"labels":["A"],"values":["abc"]}}''\<close>
  let ?payload = "PDict [(''data'', PDict [(''labels'', PList [PStr ''A'']),
                                           (''values'', PList [PStr ''abc''])])]"
  have h1: "json_span ?text = Some ?text" by (simp add: json_span_eq)
  have h2: "json_loads example_libs ?text = Inr ?payload"
    by (simp add: example_libs_def example_json_def)
  have h3: "column ?payload ''labels'' = Some (PList [PStr ''A''])"
    by (simp add: column_def top_field_def)
  have h4: "column ?payload ''values'' = Some (PList [PStr ''abc''])"
    by (simp add: column_def top_field_def)
  have h5: "\<exists>v \<in> set [PStr ''abc'']. \<not> numeric v" by (simp add: numeric_def)
  have spec: "chart_spec DayMode ?payload =
      Some (make_figure DayMode (PStr ''bar'') (PStr ''Financial Analysis'')
              \<lparr>Category = PList [PStr ''A''], Amount = PList [PStr ''abc'']\<rparr>)"
    by (simp add: chart_spec_def column_def top_field_def)
  have libs: "DataFrame example_libs
                \<lparr>Category = PList [PStr ''A''], Amount = PList [PStr ''abc'']\<rparr> = None"
    "\<And>fig. plotly example_libs fig = None"
    by (simp_all add: example_libs_def)
  from non_numeric_values_charted [OF h1 h2 h3 h4 h5, of DayMode example_app] obtain fig where
    a: "chart_spec DayMode ?payload = Some fig" and
    b: "DataFrame example_libs (data_frame fig) = None \<and> plotly example_libs fig = None \<longrightarrow>
       create_visualization example_libs DayMode (PStr ?text) example_app =
         (True, st (PlotlyChart fig) (st (Subheader (fig_title fig)) example_app))"
    by blast
  have eq: "fig = make_figure DayMode (PStr ''bar'') (PStr ''Financial Analysis'')
              \<lparr>Category = PList [PStr ''A''], Amount = PList [PStr ''abc'']\<rparr>"
    using a spec by simp
  show ?thesis
    using b libs h5 unfolding eq by (simp add: make_figure_sel)
qed

text \<open>
  The claim as it was written fails on a payload whose \<open>values\<close> holds a text: the span
  decodes, the entry is not a number, and the function returns True.
\<close>

theorem non_numeric_values_counterexample:
  \<open>json_loads example_libs ''{"data":{"labels":["A"],"values":["abc"]}}''
      = Inr (PDict [(''data'', PDict [(''labels'', PList [PStr ''A'']),
                                      (''values'', PList [PStr ''abc''])])])
   \<and> \<not> numeric (PStr ''abc'')
   \<and> fst (create_visualization example_libs DayMode
        (PStr ''{"data":{"labels":["A"],"values":["abc"]}}'') example_app)\<close>
  by (simp add: json_span_eq example_libs_def example_json_def numeric_def
      create_visualization_def visualize_span_def chart_frame_def bind_exn_def Let_def)

text \<open>
  Claim C6, as amended. When the span fails to decode, \<open>create_visualization\<close> returns
  False, the log is left alone and the run goes on, and the exception of the decoder is
  shown on the page with \<^verbatim>\<open>st.error\<close>.
\<close>

theorem decode_failure_shows_error:
  assumes "json_span text = Some js" and "json_loads env js = Inl e"
  shows "create_visualization env theme (PStr text) a = (False, st (VisualizationError e) a)
       \<and> screen (snd (create_visualization env theme (PStr text) a)) =
           screen a @ [VisualizationError e]
       \<and> messages (snd (create_visualization env theme (PStr text) a)) = messages a"
  using assms
  by (simp add: create_visualization_def visualize_span_def chart_frame_def bind_exn_def st_def)

theorem decode_failure_shows_error_witness:
  \<open>json_span ''Try {x} instead'' = Some ''{x}''
   \<and> create_visualization example_libs DayMode (PStr ''Try {x} instead'') example_app =
       (False, st (VisualizationError (Exn ValueError
          ''Expecting property name enclosed in double quotes: line 1 column 2 (char 1)''))
          example_app)\<close>
proof -
  have h1: "json_span ''Try {x} instead'' = Some ''{x}''" by (simp add: json_span_eq)
  have h2: "json_loads example_libs ''{x}'' = Inl (Exn ValueError
          ''Expecting property name enclosed in double quotes: line 1 column 2 (char 1)'')"
    by (simp add: example_libs_def example_json_def)
  show ?thesis
    using decode_failure_shows_error [OF h1 h2, of DayMode example_app] h1 by simp
qed

text \<open>
  The claim as it was written fails on the text \<open>{x}\<close>: the span does not decode, and
  the page, empty before the call, holds an error after it.
\<close>

theorem decode_failure_silent_counterexample:
  \<open>json_span ''{x}'' = Some ''{x}''
   \<and> json_loads example_libs ''{x}'' = Inl (Exn ValueError
          ''Expecting property name enclosed in double quotes: line 1 column 2 (char 1)'')
   \<and> screen example_app = []
   \<and> screen (snd (create_visualization example_libs DayMode (PStr ''{x}'') example_app)) =
       [VisualizationError (Exn ValueError
          ''Expecting property name enclosed in double quotes: line 1 column 2 (char 1)'')]\<close>
  by (simp add: json_span_eq example_libs_def example_json_def example_app_def
      create_visualization_def visualize_span_def chart_frame_def bind_exn_def st_def)

text \<open>
  Claim C7, as amended. An empty submission is rejected: the state is left as it is, no
  message is added and no request is sent, and the run is the run without a submission.
  Any other text, also one of whitespace only, is added to the log as the user's message
  and sent to the endpoint with the log.
\<close>

theorem empty_submission_rejected:
  "chat_input env theme None a = a
   \<and> chat_input env theme (Some []) a = a
   \<and> run_script env (inp\<lparr>prompt := Some []\<rparr>) ss = run_script env (inp\<lparr>prompt := None\<rparr>) ss
   \<and> (p \<noteq> [] \<longrightarrow>
        (\<exists>rest. messages (chat_input env theme (Some p) a) =
                  messages a @ \<lparr>role = User, content = PStr p\<rparr> # rest)
        \<and> sent (chat_input env theme (Some p) a) =
            sent a @ [messages a @ [\<lparr>role = User, content = PStr p\<rparr>]])"
proof -
  have run: "run_script env (inp\<lparr>prompt := Some []\<rparr>) ss =
             run_script env (inp\<lparr>prompt := None\<rparr>) ss"
    by (simp add: run_script_def chat_input_none Let_def)
  show ?thesis
    using chat_input_messages [of p env theme a] chat_input_sent [of p env theme a] run
    by (simp add: chat_input_none)
qed

theorem empty_submission_rejected_witness:
  "list_all isspace ''  ''
   \<and> (\<exists>rest. messages (chat_input example_libs DayMode (Some ''  '') example_app) =
               messages example_app @ \<lparr>role = User, content = PStr ''  ''\<rparr> # rest)
   \<and> sent (chat_input example_libs DayMode (Some ''  '') example_app) =
       [[system_message, \<lparr>role = User, content = PStr ''  ''\<rparr>]]
   \<and> chat_input example_libs DayMode (Some []) example_app = example_app"
  using empty_submission_rejected
      [of example_libs DayMode example_app example_inputs fresh_session "''  ''"]
  by (simp add: isspace_def example_app_def)

text \<open>
  The claim as it was written fails on a submission of one space: it is whitespace
  only, and after the turn the log holds it and a request carrying it was sent.
\<close>

theorem whitespace_submission_counterexample:
  "list_all isspace '' ''
   \<and> messages example_app = [system_message]
   \<and> messages (chat_input example_libs DayMode (Some '' '') example_app) =
       [system_message, \<lparr>role = User, content = PStr '' ''\<rparr>]
   \<and> sent example_app = []
   \<and> sent (chat_input example_libs DayMode (Some '' '') example_app) =
       [[system_message, \<lparr>role = User, content = PStr '' ''\<rparr>]]"
  by (simp add: isspace_def example_app_def example_libs_def example_response_def
      chat_input_messages chat_input_sent gateway_reply_def)



text \<open>
  Claim C9. Rendering never changes the message log: for every value, theme and state,
  the log after \<open>create_visualization\<close> is the log before it, and so is the history and
  its length; the same holds for the canvas and for the display of the history, which
  renders every assistant message again.
\<close>

theorem render_preserves_log:
  "messages (snd (create_visualization env theme text a)) = messages a
   \<and> history (messages (snd (create_visualization env theme text a))) = history (messages a)
   \<and> length (history (messages (snd (create_visualization env theme text a))))
       = length (history (messages a))
   \<and> messages (snd (canvas env cats amts a)) = messages a
   \<and> messages (display_history env theme ms a) = messages a"
  by (simp add: create_visualization_frame canvas_frame display_history_frame)

theorem render_preserves_log_witness:
  \<open>messages (snd (create_visualization example_libs NightMode
      (PStr ''{"data":{"labels":[],"values":[]}}'') example_app)) = [system_message]
   \<and> messages (snd (canvas example_libs ''Rent, Food'' ''500, 300'' example_app)) = [system_message]\<close>
  using render_preserves_log [of example_libs NightMode
      \<open>PStr ''{"data":{"labels":[],"values":[]}}''\<close> example_app "''Rent, Food''" "''500, 300''" "[]"]
  by (simp add: example_app_def)

text \<open>
  Claim C10. Only the presence of the two keys is tested, not their content: on a
  payload that decodes with \<open>labels\<close> and \<open>values\<close> both present and both empty, the frame
  is built from the two empty lists and, when neither the frame nor the figure raises,
  the chart is shown and the function returns True.
\<close>

theorem empty_columns_charted:
  assumes "json_span text = Some js" and "json_loads env js = Inr payload"
    and "column payload ''labels'' = Some (PList [])"
    and "column payload ''values'' = Some (PList [])"
    and "DataFrame env \<lparr>Category = PList [], Amount = PList []\<rparr> = None"
    and "\<forall>fig. chart_spec theme payload = Some fig \<longrightarrow> plotly env fig = None"
  shows "\<exists>fig. chart_spec theme payload = Some fig
           \<and> data_frame fig = \<lparr>Category = PList [], Amount = PList []\<rparr>
           \<and> create_visualization env theme (PStr text) a =
               (True, st (PlotlyChart fig) (st (Subheader (fig_title fig)) a))"
proof -
  obtain fig where fig: "chart_spec theme payload = Some fig"
    and fr: "data_frame fig = \<lparr>Category = PList [], Amount = PList []\<rparr>"
    using assms(3,4) by (simp add: chart_spec_def make_figure_sel)
  show ?thesis
    using create_visualization_present [OF assms(1,2) fig, of a] fig fr assms(5,6) by auto
qed

theorem empty_columns_charted_witness:
  \<open>fst (create_visualization example_libs NightMode
          (PStr ''{"data":{"labels":[],"values":[]}}'') example_app)\<close>
proof -
  let ?text = \<open>''{"data":{"labels":[],"values":[]}}''\<close>
  let ?payload = "PDict [(''data'', PDict [(''labels'', PList []), (''values'', PList [])])]"
  have h1: "json_span ?text = Some ?text" by (simp add: json_span_eq)
  have h2: "json_loads example_libs ?text = Inr ?payload"
    by (simp add: example_libs_def example_json_def)
  have h3: "column ?payload ''labels'' = Some (PList [])"
    and h4: "column ?payload ''values'' = Some (PList [])"
    by (simp_all add: column_def top_field_def)
  have h5: "DataFrame example_libs \<lparr>Category = PList [], Amount = PList []\<rparr> = None"
    by (simp add: example_libs_def)
  have h6: "\<forall>fig. chart_spec NightMode ?payload = Some fig \<longrightarrow> plotly example_libs fig = None"
    by (simp add: example_libs_def)
  show ?thesis using empty_columns_charted [OF h1 h2 h3 h4 h5 h6, of example_app] by auto
qed

end
